theory Spec2Isabelle
  imports Complex_Main "HOL-Library.List_Lexorder" "HOL-Library.Char_ord"
begin

section \<open>Invoice numbering and invoice arithmetic of the invoicing application\<close>

text \<open>
  The development embeds the invoice hooks (\<^verbatim>\<open>useCreateInvoice\<close>, \<^verbatim>\<open>useUpdateInvoice\<close>,
  \<^verbatim>\<open>useUpdateInvoiceStatus\<close>, \<^verbatim>\<open>useDeleteInvoice\<close>, \<^verbatim>\<open>useUpdateOrganization\<close>), the
  SQL function \<^verbatim>\<open>get_next_invoice_number\<close> and the constraints of the tables
  \<^verbatim>\<open>organizations\<close>, \<^verbatim>\<open>invoices\<close> and \<^verbatim>\<open>invoice_items\<close>.

  Conventions of the embedding.
  \<^item> A table is the list of its rows; the database is a record of tables, passed
    through every operation and returned updated. An operation that throws still
    returns the database, because the statements it ran before the failure are
    committed (the hooks open no transaction).
  \<^item> \<^verbatim>\<open>gen_random_uuid()\<close> is a counter \<open>next_uuid\<close>: every insert takes the next
    value, so generated keys never collide.
  \<^item> A nullable column and a JavaScript value that may be \<^verbatim>\<open>null\<close> or
    \<^verbatim>\<open>undefined\<close> are options; SQL functions are strict on \<^verbatim>\<open>NULL\<close>.
  \<^item> JavaScript numbers and SQL numerics are exact rationals: neither the rounding of
    IEEE doubles nor the scale of a numeric column is modelled. The column
    \<^verbatim>\<open>invoice_counter\<close> is a 32-bit \<^verbatim>\<open>integer\<close> and its overflow is modelled.
  \<^item> Row-level security, timestamps and the columns no operation here reads or
    writes are left out.
\<close>

subsection \<open>Text of an integer and \<^verbatim>\<open>LPAD\<close>\<close>

definition digit_char :: "nat \<Rightarrow> char" where
  "digit_char d = char_of (48 + d)"

text \<open>Decimal digits of a natural number, most significant first, no leading zero.\<close>

fun nat_text :: "nat \<Rightarrow> string" where
  "nat_text n = (if n < 10 then [digit_char n] else nat_text (n div 10) @ [digit_char (n mod 10)])"

declare nat_text.simps [simp del]

text \<open>The cast \<^verbatim>\<open>next_num::text\<close> of a PostgreSQL \<^verbatim>\<open>integer\<close>.\<close>

definition int4_text :: "int \<Rightarrow> string" where
  "int4_text i = (if i < 0 then CHR ''-'' # nat_text (nat (- i)) else nat_text (nat i))"

text \<open>
  PostgreSQL's \<^verbatim>\<open>lpad(string, length, fill)\<close>: the string is filled on the left up to
  \<open>length\<close> characters with the characters of \<open>fill\<close>, repeated; a string that is already
  longer than \<open>length\<close> is cut to its first \<open>length\<close> characters.
\<close>

definition lpad :: "string \<Rightarrow> nat \<Rightarrow> string \<Rightarrow> string" where
  "lpad s len fill =
     (if len \<le> length s then take len s
      else if fill = [] then s
      else take (len - length s) (concat (replicate (len - length s) fill)) @ s)"

text \<open>The operator \<^verbatim>\<open>||\<close> with a text literal on the left: \<^verbatim>\<open>NULL\<close> stays \<^verbatim>\<open>NULL\<close>.\<close>

definition sql_concat :: "string \<Rightarrow> string option \<Rightarrow> string option" where
  "sql_concat a b = map_option (\<lambda>t. a @ t) b"

text \<open>The expression \<^verbatim>\<open>'INV-' || LPAD(next_num::text, 4, '0')\<close>.\<close>

definition format_invoice_number :: "int option \<Rightarrow> string option" where
  "format_invoice_number next_num =
     sql_concat ''INV-'' (map_option (\<lambda>n. lpad (int4_text n) 4 ''0'') next_num)"

subsection \<open>Tables\<close>

type_synonym uuid = nat

datatype invoice_status = Draft | Sent | Paid | Overdue | Cancelled

record organization =
  org_id :: uuid
  org_name :: string
  invoice_additional_info :: "string option"
  invoice_terms :: "string option"
  invoice_counter :: "int option"

text \<open>
  The fields a caller of \<^verbatim>\<open>useCreateInvoice\<close> supplies; the row of \<^verbatim>\<open>invoices\<close> extends
  them with the columns the hook or the table's defaults fill in.
\<close>

record invoice_input =
  customer_id :: "uuid option"
  customer_name :: "string option"
  customer_phone :: "string option"
  customer_email :: "string option"
  customer_address :: "string option"
  issue_date :: string
  due_date :: string
  invoice_notes :: "string option"
  terms :: "string option"

record invoice = invoice_input +
  inv_id :: uuid
  organization_id :: uuid
  invoice_number :: string
  status :: invoice_status
  subtotal :: rat
  tax_amount :: rat
  discount_amount :: rat
  total_amount :: rat
  currency :: string
  created_by :: "uuid option"

text \<open>
  A line item as the caller gives it, as the hooks extend it (\<^verbatim>\<open>{...item, amount}\<close>), and
  as a row of \<^verbatim>\<open>invoice_items\<close>.
\<close>

record item_input =
  description :: string
  quantity :: rat
  unit_price :: rat
  tax_rate :: rat

record item_with_amount = item_input +
  amount :: rat

record invoice_item = item_with_amount +
  item_id :: uuid
  invoice_id :: uuid

record database =
  organizations :: "organization list"
  customers :: "uuid list"
  invoices :: "invoice list"
  invoice_items :: "invoice_item list"
  next_uuid :: uuid

text \<open>
  What a hook throws: its own two errors, and the errors the data layer reports
  (the SQLSTATE, or the PostgREST code of \<^verbatim>\<open>.single()\<close> on a result that is not one row).
\<close>

datatype error =
    NoOrganization
  | NotAuthenticated
  | NumericValueOutOfRange
  | NotNullViolation
  | ForeignKeyViolation
  | UniqueViolation
  | NoSingleRow

subsection \<open>The allocator \<^verbatim>\<open>get_next_invoice_number\<close>\<close>

definition int4_max :: int where
  "int4_max = 2147483647"

text \<open>\<^verbatim>\<open>COALESCE(invoice_counter, 0) + 1\<close>\<close>

definition bumped :: "organization \<Rightarrow> int" where
  "bumped g = (case invoice_counter g of None \<Rightarrow> 0 | Some c \<Rightarrow> c) + 1"

text \<open>
  \<^verbatim>\<open>UPDATE organizations SET invoice_counter = COALESCE(invoice_counter, 0) + 1
     WHERE id = org_id RETURNING invoice_counter INTO next_num;
  RETURN 'INV-' || LPAD(next_num::text, 4, '0');\<close>

  The statement fails as a whole when a new value leaves the range of \<^verbatim>\<open>integer\<close>.
  \<^verbatim>\<open>INTO\<close> without \<^verbatim>\<open>STRICT\<close> takes the first returned row, and \<^verbatim>\<open>NULL\<close> when the
  update touched no row; the function then returns \<^verbatim>\<open>NULL\<close>.
\<close>

definition get_next_invoice_number :: "uuid \<Rightarrow> database \<Rightarrow> (error + string option) \<times> database" where
  "get_next_invoice_number oid db =
     (let hit = filter (\<lambda>g. org_id g = oid) (organizations db) in
      if list_ex (\<lambda>g. int4_max < bumped g) hit then (Inl NumericValueOutOfRange, db)
      else
        let next_num = (case hit of [] \<Rightarrow> None | g # _ \<Rightarrow> Some (bumped g)) in
        (Inr (format_invoice_number next_num),
         db\<lparr>organizations :=
              map (\<lambda>g. if org_id g = oid then g\<lparr>invoice_counter := Some (bumped g)\<rparr> else g)
                (organizations db)\<rparr>))"

subsection \<open>The computation shared by \<^verbatim>\<open>useCreateInvoice\<close> and \<^verbatim>\<open>useUpdateInvoice\<close>\<close>

text \<open>
  \<^verbatim>\<open>let subtotal = 0; let taxAmount = 0;
  const itemsWithAmounts = items.map((item) => {
    const itemSubtotal = item.quantity * item.unit_price;
    const itemTax = itemSubtotal * (item.tax_rate / 100);
    subtotal += itemSubtotal; taxAmount += itemTax;
    return { ...item, amount: itemSubtotal + itemTax };
  });\<close>

  The two accumulators are threaded through the traversal; the result holds the mapped
  list and their final values.
\<close>

fun items_loop :: "item_input list \<Rightarrow> rat \<Rightarrow> rat \<Rightarrow> item_with_amount list \<times> rat \<times> rat" where
  "items_loop [] sub tax = ([], sub, tax)"
| "items_loop (item # rest) sub tax =
     (let itemSubtotal = quantity item * unit_price item;
          itemTax = itemSubtotal * (tax_rate item / 100);
          row = \<lparr>description = description item, quantity = quantity item,
                 unit_price = unit_price item, tax_rate = tax_rate item,
                 amount = itemSubtotal + itemTax\<rparr>
      in case items_loop rest (sub + itemSubtotal) (tax + itemTax) of
           (rows, sub', tax') \<Rightarrow> (row # rows, sub', tax'))"

record computed =
  itemsWithAmounts :: "item_with_amount list"
  c_subtotal :: rat
  c_taxAmount :: rat
  c_totalAmount :: rat

definition compute :: "item_input list \<Rightarrow> computed" where
  "compute items =
     (case items_loop items 0 0 of
        (rows, sub, tax) \<Rightarrow>
          \<lparr>itemsWithAmounts = rows, c_subtotal = sub, c_taxAmount = tax,
           c_totalAmount = sub + tax\<rparr>)"


text \<open>\<^verbatim>\<open>x || 0\<close> on a number: zero is falsy and is replaced by zero.\<close>

definition or_zero :: "rat \<Rightarrow> rat" where
  "or_zero x = (if x = 0 then 0 else x)"

fun calculateTotals_loop :: "item_input list \<Rightarrow> rat \<Rightarrow> rat \<Rightarrow> rat \<times> rat" where
  "calculateTotals_loop [] sub tax = (sub, tax)"
| "calculateTotals_loop (item # rest) sub tax =
     (let itemSubtotal = or_zero (quantity item) * or_zero (unit_price item)
      in calculateTotals_loop rest (sub + itemSubtotal)
           (tax + itemSubtotal * (or_zero (tax_rate item) / 100)))"

definition calculateTotals :: "item_input list \<Rightarrow> rat \<times> rat \<times> rat" where
  "calculateTotals watchItems =
     (case calculateTotals_loop watchItems 0 0 of
        (sub, tax) \<Rightarrow> (sub, tax, sub + tax))"

subsection \<open>Statements on the tables\<close>

text \<open>
  \<^verbatim>\<open>INSERT INTO invoices\<close> of one row, \<^verbatim>\<open>.select().single()\<close>. The payload's
  \<^verbatim>\<open>invoice_number\<close> is what the allocator returned, so it may be \<^verbatim>\<open>NULL\<close>; the other
  columns arrive in \<open>row\<close>, whose key and number are overwritten here. The constraints
  of the table, in the order PostgreSQL checks them: \<^verbatim>\<open>invoice_number TEXT NOT NULL\<close>,
  \<^verbatim>\<open>UNIQUE(organization_id, invoice_number)\<close>, then the foreign keys
  \<^verbatim>\<open>organization_id REFERENCES organizations(id)\<close> and
  \<^verbatim>\<open>customer_id REFERENCES customers(id)\<close>. The foreign key of \<^verbatim>\<open>created_by\<close> is not
  checked: the hook passes the key of the signed-in user.
\<close>

definition insert_invoice :: "string option \<Rightarrow> invoice \<Rightarrow> database \<Rightarrow> (error + invoice) \<times> database" where
  "insert_invoice number row db =
     (case number of
        None \<Rightarrow> (Inl NotNullViolation, db)
      | Some n \<Rightarrow>
          if list_ex (\<lambda>r. organization_id r = organization_id row \<and> invoice_number r = n)
               (invoices db)
          then (Inl UniqueViolation, db)
          else if \<not> list_ex (\<lambda>g. org_id g = organization_id row) (organizations db)
          then (Inl ForeignKeyViolation, db)
          else if (case customer_id row of None \<Rightarrow> False | Some c \<Rightarrow> \<not> List.member (customers db) c)
          then (Inl ForeignKeyViolation, db)
          else
            let r = row\<lparr>inv_id := next_uuid db, invoice_number := n\<rparr>
            in (Inr r, db\<lparr>invoices := invoices db @ [r], next_uuid := next_uuid db + 1\<rparr>))"

text \<open>\<^verbatim>\<open>INSERT INTO invoice_items\<close> of the mapped items, each with a generated key.\<close>

fun insert_items :: "uuid \<Rightarrow> item_with_amount list \<Rightarrow> database \<Rightarrow> database" where
  "insert_items iid [] db = db"
| "insert_items iid (item # rest) db =
     insert_items iid rest
       (db\<lparr>invoice_items := invoice_items db @
             [\<lparr>description = description item, quantity = quantity item,
               unit_price = unit_price item, tax_rate = tax_rate item,
               amount = amount item, item_id = next_uuid db, invoice_id = iid\<rparr>],
           next_uuid := next_uuid db + 1\<rparr>)"

text \<open>\<^verbatim>\<open>.single()\<close>: the rows a statement returned must be exactly one.\<close>

definition single :: "'a list \<Rightarrow> error + 'a" where
  "single rows = (case rows of [r] \<Rightarrow> Inr r | _ \<Rightarrow> Inl NoSingleRow)"

text \<open>\<^verbatim>\<open>x || null\<close> on a string that may be absent: the empty string is falsy.\<close>

definition or_null :: "string option \<Rightarrow> string option" where
  "or_null x = (case x of None \<Rightarrow> None | Some s \<Rightarrow> if s = [] then None else Some s)"

subsection \<open>\<^verbatim>\<open>useCreateInvoice\<close>\<close>

record session =
  current_organization_id :: "uuid option"
  user_id :: "uuid option"

text \<open>
  The mutation of \<^verbatim>\<open>useCreateInvoice\<close>: the two guards, the call of the allocator (its
  increment stays when a later statement fails), the computation, the insert of the
  header with \<^verbatim>\<open>status: "draft"\<close> and the table's defaults \<^verbatim>\<open>discount_amount 0\<close> and
  \<^verbatim>\<open>currency 'INR'\<close>, and the insert of the items. The key of a customer is never the
  empty string, so \<^verbatim>\<open>customer_id || null\<close> is the value itself.
\<close>

definition createInvoice :: "session \<Rightarrow> invoice_input \<Rightarrow> item_input list \<Rightarrow> database \<Rightarrow> (error + invoice) \<times> database" where
  "createInvoice ses invoice items db =
     (case current_organization_id ses of
        None \<Rightarrow> (Inl NoOrganization, db)
      | Some org \<Rightarrow>
     (case user_id ses of
        None \<Rightarrow> (Inl NotAuthenticated, db)
      | Some uid \<Rightarrow>
     (case get_next_invoice_number org db of
        (Inl numError, db1) \<Rightarrow> (Inl numError, db1)
      | (Inr invoiceNumber, db1) \<Rightarrow>
          let c = compute items;
              payload =
                \<lparr>customer_id = customer_id invoice,
                 customer_name = or_null (customer_name invoice),
                 customer_phone = or_null (customer_phone invoice),
                 customer_email = or_null (customer_email invoice),
                 customer_address = or_null (customer_address invoice),
                 issue_date = issue_date invoice,
                 due_date = due_date invoice,
                 invoice_notes = or_null (invoice_notes invoice),
                 terms = or_null (terms invoice),
                 inv_id = 0,
                 organization_id = org,
                 invoice_number = [],
                 status = Draft,
                 subtotal = c_subtotal c,
                 tax_amount = c_taxAmount c,
                 discount_amount = 0,
                 total_amount = c_totalAmount c,
                 currency = ''INR'',
                 created_by = Some uid\<rparr>
          in case insert_invoice invoiceNumber payload db1 of
               (Inl invoiceError, db2) \<Rightarrow> (Inl invoiceError, db2)
             | (Inr invoiceData, db2) \<Rightarrow>
                 (Inr invoiceData, insert_items (inv_id invoiceData) (itemsWithAmounts c) db2))))"

subsection \<open>\<^verbatim>\<open>useUpdateInvoice\<close>, \<^verbatim>\<open>useUpdateInvoiceStatus\<close>, \<^verbatim>\<open>useDeleteInvoice\<close>\<close>

text \<open>
  An optional key of an update payload: a key that is absent or \<^verbatim>\<open>undefined\<close> is not
  sent and leaves its column alone; any other value, \<^verbatim>\<open>null\<close> included, is written.
\<close>

datatype 'a patch = Keep | Put 'a

definition patched :: "'a patch \<Rightarrow> 'a \<Rightarrow> 'a" where
  "patched p old = (case p of Keep \<Rightarrow> old | Put v \<Rightarrow> v)"

text \<open>
  The \<open>invoice\<close> argument of \<^verbatim>\<open>useUpdateInvoice\<close>: these eight keys and no other. The
  page \<^verbatim>\<open>EditInvoice\<close> fills them from its form and drops the form's \<^verbatim>\<open>invoiceNumber\<close>.
\<close>

record invoice_update =
  u_customer_name :: "string option patch"
  u_customer_phone :: "string option patch"
  u_customer_email :: "string option patch"
  u_customer_address :: "string option patch"
  u_issue_date :: "string patch"
  u_due_date :: "string patch"
  u_notes :: "string option patch"
  u_terms :: "string option patch"

text \<open>\<^verbatim>\<open>{ ...invoice, subtotal, tax_amount: taxAmount, total_amount: totalAmount }\<close> on a row.\<close>

definition apply_invoice_update :: "invoice_update \<Rightarrow> computed \<Rightarrow> invoice \<Rightarrow> invoice" where
  "apply_invoice_update u c r =
     r\<lparr>customer_name := patched (u_customer_name u) (customer_name r),
       customer_phone := patched (u_customer_phone u) (customer_phone r),
       customer_email := patched (u_customer_email u) (customer_email r),
       customer_address := patched (u_customer_address u) (customer_address r),
       issue_date := patched (u_issue_date u) (issue_date r),
       due_date := patched (u_due_date u) (due_date r),
       invoice_notes := patched (u_notes u) (invoice_notes r),
       terms := patched (u_terms u) (terms r),
       subtotal := c_subtotal c,
       tax_amount := c_taxAmount c,
       total_amount := c_totalAmount c\<rparr>"

text \<open>
  The mutation of \<^verbatim>\<open>useUpdateInvoice\<close>: the computation, the update of the header
  \<^verbatim>\<open>WHERE id = id\<close> with \<^verbatim>\<open>.select().single()\<close>, the delete of the invoice's items and the
  insert of the new ones. The optional \<^verbatim>\<open>id\<close> of an item is never read.
\<close>

definition updateInvoice :: "uuid \<Rightarrow> invoice_update \<Rightarrow> item_input list \<Rightarrow> database \<Rightarrow> (error + invoice) \<times> database" where
  "updateInvoice i u items db =
     (let c = compute items;
          db1 = db\<lparr>invoices :=
                  map (\<lambda>r. if inv_id r = i then apply_invoice_update u c r else r) (invoices db)\<rparr>
      in case single (filter (\<lambda>r. inv_id r = i) (invoices db1)) of
           Inl invoiceError \<Rightarrow> (Inl invoiceError, db1)
         | Inr invoiceData \<Rightarrow>
             let db2 = db1\<lparr>invoice_items :=
                         filter (\<lambda>it. invoice_id it \<noteq> i) (invoice_items db1)\<rparr>
             in (Inr invoiceData, insert_items i (itemsWithAmounts c) db2))"

text \<open>The mutation of \<^verbatim>\<open>useUpdateInvoiceStatus\<close>: \<^verbatim>\<open>.update({ status }).eq("id", id)\<close>.\<close>

definition setInvoiceStatus :: "uuid \<Rightarrow> invoice_status \<Rightarrow> database \<Rightarrow> (error + invoice) \<times> database" where
  "setInvoiceStatus i st db =
     (let db1 = db\<lparr>invoices :=
                  map (\<lambda>r. if inv_id r = i then r\<lparr>status := st\<rparr> else r) (invoices db)\<rparr>
      in (single (filter (\<lambda>r. inv_id r = i) (invoices db1)), db1))"

text \<open>
  The mutation of \<^verbatim>\<open>useDeleteInvoice\<close>: \<^verbatim>\<open>DELETE FROM invoices WHERE id = id\<close>; the items
  go with their invoice (\<^verbatim>\<open>ON DELETE CASCADE\<close>). Deleting no row is not an error.
\<close>

definition deleteInvoice :: "uuid \<Rightarrow> database \<Rightarrow> (error + unit) \<times> database" where
  "deleteInvoice i db =
     (Inr (),
      db\<lparr>invoices := filter (\<lambda>r. inv_id r \<noteq> i) (invoices db),
         invoice_items := filter (\<lambda>it. invoice_id it \<noteq> i) (invoice_items db)\<rparr>)"

subsection \<open>\<^verbatim>\<open>useUpdateOrganization\<close>\<close>





subsection \<open>Sequences of operations\<close>

datatype operation =
    CreateInvoice session invoice_input "item_input list"
  | UpdateInvoice uuid invoice_update "item_input list"
  | SetInvoiceStatus uuid invoice_status
  | DeleteInvoice uuid
  | AllocateNext uuid

text \<open>The database an operation leaves behind, whether it returned or threw.\<close>

fun exec :: "operation \<Rightarrow> database \<Rightarrow> database" where
  "exec (CreateInvoice ses invoice items) db = snd (createInvoice ses invoice items db)"
| "exec (UpdateInvoice i u items) db = snd (updateInvoice i u items db)"
| "exec (SetInvoiceStatus i st) db = snd (setInvoiceStatus i st db)"
| "exec (DeleteInvoice i) db = snd (deleteInvoice i db)"
| "exec (AllocateNext oid) db = snd (get_next_invoice_number oid db)"

fun run :: "operation list \<Rightarrow> database \<Rightarrow> database" where
  "run [] db = db"
| "run (op # ops) db = run ops (exec op db)"




subsection \<open>Notions used in the properties\<close>






text \<open>Key, organization and number of every invoice, in table order.\<close>

definition numbering :: "database \<Rightarrow> (uuid \<times> uuid \<times> string) list" where
  "numbering db = map (\<lambda>r. (inv_id r, organization_id r, invoice_number r)) (invoices db)"

text \<open>No key in use is one that \<open>next_uuid\<close> will still hand out.\<close>

definition keys_below_next :: "database \<Rightarrow> bool" where
  "keys_below_next db \<longleftrightarrow>
     list_all (\<lambda>r. inv_id r < next_uuid db) (invoices db) \<and>
     list_all (\<lambda>it. invoice_id it < next_uuid db) (invoice_items db)"

text \<open>\<^verbatim>\<open>UNIQUE(organization_id, invoice_number)\<close> as a property of the table.\<close>

definition numbers_unique :: "database \<Rightarrow> bool" where
  "numbers_unique db \<longleftrightarrow>
     distinct (map (\<lambda>r. (organization_id r, invoice_number r)) (invoices db))"

text \<open>The rows an insert of items adds: the items in order, with keys from \<open>k\<close> on.\<close>

fun item_rows :: "uuid \<Rightarrow> uuid \<Rightarrow> item_with_amount list \<Rightarrow> invoice_item list" where
  "item_rows iid k [] = []"
| "item_rows iid k (item # rest) =
     \<lparr>description = description item, quantity = quantity item,
      unit_price = unit_price item, tax_rate = tax_rate item,
      amount = amount item, item_id = k, invoice_id = iid\<rparr> # item_rows iid (Suc k) rest"

subsection \<open>Example data\<close>

definition example_org :: "uuid \<Rightarrow> int option \<Rightarrow> organization" where
  "example_org i c =
     \<lparr>org_id = i, org_name = ''Acme'', invoice_additional_info = None,
      invoice_terms = None, invoice_counter = c\<rparr>"

text \<open>A database of one organization, with key 1, and nothing else.\<close>

definition example_db :: "int option \<Rightarrow> database" where
  "example_db c =
     \<lparr>organizations = [example_org 1 c], customers = [], invoices = [],
      invoice_items = [], next_uuid = 100\<rparr>"


definition example_session :: "uuid \<Rightarrow> session" where
  "example_session org = \<lparr>current_organization_id = Some org, user_id = Some 50\<rparr>"

definition example_input :: invoice_input where
  "example_input =
     \<lparr>customer_id = None, customer_name = Some ''Ann'', customer_phone = None,
      customer_email = Some [], customer_address = None, issue_date = ''2026-01-01'',
      due_date = ''2026-01-31'', invoice_notes = None, terms = Some ''Net 30''\<rparr>"

text \<open>The two items of the specification's example.\<close>

definition example_items :: "item_input list" where
  "example_items =
     [\<lparr>description = ''Design'', quantity = 2, unit_price = 100, tax_rate = 18\<rparr>,
      \<lparr>description = ''Hosting'', quantity = 1, unit_price = 50, tax_rate = 0\<rparr>]"

definition example_invoice :: "uuid \<Rightarrow> uuid \<Rightarrow> string \<Rightarrow> invoice_status \<Rightarrow> invoice" where
  "example_invoice i org n st =
     \<lparr>customer_id = None, customer_name = Some ''Ann'', customer_phone = None,
      customer_email = None, customer_address = None, issue_date = ''2026-01-01'',
      due_date = ''2026-01-31'', invoice_notes = None, terms = Some ''Net 30'',
      inv_id = i, organization_id = org, invoice_number = n, status = st,
      subtotal = 250, tax_amount = 36, discount_amount = 0, total_amount = 286,
      currency = ''INR'', created_by = Some 50\<rparr>"

text \<open>An update that rewrites the customer's name and the due date and keeps the rest.\<close>

definition example_update :: invoice_update where
  "example_update =
     \<lparr>u_customer_name = Put (Some ''Bob''), u_customer_phone = Keep, u_customer_email = Keep,
      u_customer_address = Keep, u_issue_date = Keep, u_due_date = Put ''2026-02-28'',
      u_notes = Put None, u_terms = Keep\<rparr>"

text \<open>One organization, with key 1 and the counter given, and one invoice, with key 7.\<close>

definition example_db_invoice :: "int option \<Rightarrow> string \<Rightarrow> invoice_status \<Rightarrow> database" where
  "example_db_invoice c n st =
     \<lparr>organizations = [example_org 1 c], customers = [],
      invoices = [example_invoice 7 1 n st], invoice_items = [], next_uuid = 100\<rparr>"


section \<open>Properties\<close>

subsection \<open>Digits and padding\<close>






lemma nat_text_ge10: "10 \<le> n \<Longrightarrow> nat_text n = nat_text (n div 10) @ [digit_char (n mod 10)]"
  by (subst nat_text.simps) simp




lemma nat_text_nonempty: "nat_text n \<noteq> []"
  by (subst nat_text.simps) simp

lemma length_nat_text_ge10: "10 \<le> n \<Longrightarrow> length (nat_text n) = Suc (length (nat_text (n div 10)))"
  by (simp add: nat_text_ge10)





lemma lpad_long: "w \<le> length s \<Longrightarrow> lpad s w fill = take w s"
  by (simp add: lpad_def)





lemma length_nat_text_gt4: "10000 \<le> n \<Longrightarrow> 4 < length (nat_text n)"
proof -
  assume n: "10000 \<le> n"
  have "0 < length (nat_text (n div 10 div 10 div 10 div 10))"
    by (simp add: nat_text_nonempty)
  moreover have "length (nat_text n) = Suc (Suc (Suc (Suc (length (nat_text (n div 10 div 10 div 10 div 10))))))"
    using n by (simp add: length_nat_text_ge10 Suc_le_eq less_eq_div_iff_mult_less_eq)
  ultimately show ?thesis by simp
qed




subsection \<open>The allocator\<close>

lemma digit_chars:
  "digit_char 0 = CHR ''0''" "digit_char 1 = CHR ''1''" "digit_char 2 = CHR ''2''"
  "digit_char 3 = CHR ''3''" "digit_char 4 = CHR ''4''" "digit_char 5 = CHR ''5''"
  "digit_char 6 = CHR ''6''" "digit_char 7 = CHR ''7''" "digit_char 8 = CHR ''8''"
  "digit_char 9 = CHR ''9''" "digit_char (Suc 0) = CHR ''1''"
  unfolding digit_char_def by code_simp+

lemma format_invoice_number_large:
  "10000 \<le> c \<Longrightarrow> format_invoice_number (Some c) = Some (''INV-'' @ take 4 (nat_text (nat c)))"
proof -
  assume c: "10000 \<le> c"
  then have "4 < length (nat_text (nat c))"
    by (intro length_nat_text_gt4) simp
  with c show ?thesis
    by (simp add: format_invoice_number_def sql_concat_def int4_text_def lpad_long)
qed

lemma nat_text_10000: "nat_text 10000 = ''10000''"
  by (simp add: nat_text.simps digit_chars)


lemma format_10000: "format_invoice_number (Some 10000) = Some ''INV-1000''"
  by (simp add: format_invoice_number_large nat_text_10000)





text \<open>
  Claim C3. For a counter value above 9999 the allocator is claimed to return
  \<^verbatim>\<open>INV-\<close> followed by all the decimal digits of the value. The code does not: on an
  organization whose counter is 9999 the call sets the counter to 10000 and returns
  \<^verbatim>\<open>INV-1000\<close>, the first four digits only, where the claim has \<^verbatim>\<open>INV-10000\<close>.
\<close>

theorem C3_allocator_truncates_at_10000:
  "get_next_invoice_number 1 (example_db (Some 9999))
     = (Inr (Some ''INV-1000''), example_db (Some 10000))
   \<and> ''INV-'' @ nat_text 10000 = ''INV-10000''"
  by (simp add: get_next_invoice_number_def example_db_def example_org_def bumped_def
        int4_max_def format_10000 nat_text_10000)

subsection \<open>The computation\<close>

lemma items_loop_eq:
  "items_loop items sub tax =
     (map (\<lambda>item. \<lparr>description = description item, quantity = quantity item,
                     unit_price = unit_price item, tax_rate = tax_rate item,
                     amount = quantity item * unit_price item
                              + quantity item * unit_price item * (tax_rate item / 100)\<rparr>) items,
      sub + (\<Sum>item\<leftarrow>items. quantity item * unit_price item),
      tax + (\<Sum>item\<leftarrow>items. quantity item * unit_price item * tax_rate item / 100))"
  by (induction items arbitrary: sub tax) (simp_all add: Let_def algebra_simps)






lemma calculateTotals_loop_eq:
  "calculateTotals_loop items sub tax =
     (sub + (\<Sum>item\<leftarrow>items. quantity item * unit_price item),
      tax + (\<Sum>item\<leftarrow>items. quantity item * unit_price item * tax_rate item / 100))"
  by (induction items arbitrary: sub tax) (simp_all add: Let_def or_zero_def algebra_simps)

lemma calculateTotals_compute:
  "calculateTotals items = (c_subtotal (compute items), c_taxAmount (compute items), c_totalAmount (compute items))"
  by (simp add: calculateTotals_def calculateTotals_loop_eq compute_def items_loop_eq)

subsection \<open>What each operation changes\<close>

lemma single_Inr: "single xs = Inr r \<longleftrightarrow> xs = [r]"
  by (auto simp: single_def split: list.splits)

lemma insert_items_invoices [simp]: "invoices (insert_items i its db) = invoices db"
  by (induction its arbitrary: db) simp_all

lemma insert_items_organizations [simp]: "organizations (insert_items i its db) = organizations db"
  by (induction its arbitrary: db) simp_all

lemma insert_items_customers [simp]: "customers (insert_items i its db) = customers db"
  by (induction its arbitrary: db) simp_all

lemma insert_items_next_uuid [simp]: "next_uuid (insert_items i its db) = next_uuid db + length its"
  by (induction its arbitrary: db) simp_all

lemma get_next_invoice_number_frame [simp]:
  "invoices (snd (get_next_invoice_number a db)) = invoices db"
  "invoice_items (snd (get_next_invoice_number a db)) = invoice_items db"
  "customers (snd (get_next_invoice_number a db)) = customers db"
  "next_uuid (snd (get_next_invoice_number a db)) = next_uuid db"
  by (simp_all add: get_next_invoice_number_def Let_def)

lemma get_next_invoice_number_frameD:
  "get_next_invoice_number a db = (v, db1) \<Longrightarrow>
     invoices db1 = invoices db \<and> invoice_items db1 = invoice_items db \<and>
     customers db1 = customers db \<and> next_uuid db1 = next_uuid db"
  using get_next_invoice_number_frame [of a db] by simp

text \<open>What a successful \<open>createInvoice\<close> went through.\<close>

lemma createInvoice_Inr:
  assumes "createInvoice ses invoice items db = (Inr r, db')"
  obtains org uid n db1 where
    "current_organization_id ses = Some org" "user_id ses = Some uid"
    "get_next_invoice_number org db = (Inr (Some n), db1)"
    "\<not> list_ex (\<lambda>x. organization_id x = org \<and> invoice_number x = n) (invoices db)"
    "inv_id r = next_uuid db" "organization_id r = org" "invoice_number r = n"
    "status r = Draft" "discount_amount r = 0"
    "subtotal r = c_subtotal (compute items)" "tax_amount r = c_taxAmount (compute items)"
    "total_amount r = c_totalAmount (compute items)"
    "db' = insert_items (next_uuid db) (itemsWithAmounts (compute items))
             (db1\<lparr>invoices := invoices db @ [r], next_uuid := next_uuid db + 1\<rparr>)"
proof -
  from assms obtain org uid where ou: "current_organization_id ses = Some org" "user_id ses = Some uid"
    by (auto simp: createInvoice_def split: option.splits)
  obtain v db1 where g: "get_next_invoice_number org db = (v, db1)"
    by (cases "get_next_invoice_number org db")
  note fr = get_next_invoice_number_frameD [OF g]
  from assms ou g obtain n where v: "v = Inr (Some n)"
    by (cases v; cases "projr v")
       (auto simp: createInvoice_def insert_invoice_def Let_def split: prod.splits sum.splits)
  from assms ou g v fr show thesis
    by (intro that [of org uid n db1])
       (auto simp: createInvoice_def insert_invoice_def Let_def split: if_splits)
qed


lemma filter_map_same: "(\<And>x. P (f x) = P x) \<Longrightarrow> filter P (map f xs) = map f (filter P xs)"
  by (induction xs) simp_all

lemma apply_invoice_update_keeps [simp]:
  "inv_id (apply_invoice_update u c r) = inv_id r"
  "organization_id (apply_invoice_update u c r) = organization_id r"
  "invoice_number (apply_invoice_update u c r) = invoice_number r"
  "status (apply_invoice_update u c r) = status r"
  "discount_amount (apply_invoice_update u c r) = discount_amount r"
  "subtotal (apply_invoice_update u c r) = c_subtotal c"
  "tax_amount (apply_invoice_update u c r) = c_taxAmount c"
  "total_amount (apply_invoice_update u c r) = c_totalAmount c"
  by (simp_all add: apply_invoice_update_def)

lemma updateInvoice_invoices:
  "invoices (snd (updateInvoice i u items db)) =
     map (\<lambda>r. if inv_id r = i then apply_invoice_update u (compute items) r else r) (invoices db)"
  by (simp add: updateInvoice_def Let_def split: sum.splits)

lemma updateInvoice_organizations [simp]:
  "organizations (snd (updateInvoice i u items db)) = organizations db"
  by (simp add: updateInvoice_def Let_def split: sum.splits)

lemma updateInvoice_Inr:
  assumes "updateInvoice i u items db = (Inr r, db')"
  obtains r0 where
    "filter (\<lambda>x. inv_id x = i) (invoices db) = [r0]"
    "r = apply_invoice_update u (compute items) r0"
    "db' = insert_items i (itemsWithAmounts (compute items))
             (db\<lparr>invoices := map (\<lambda>r. if inv_id r = i then apply_invoice_update u (compute items) r else r)
                                 (invoices db),
                 invoice_items := filter (\<lambda>it. invoice_id it \<noteq> i) (invoice_items db)\<rparr>)"
proof -
  let ?f = "\<lambda>r. if inv_id r = i then apply_invoice_update u (compute items) r else r"
  have fm: "filter (\<lambda>x. inv_id x = i) (map ?f (invoices db)) = map ?f (filter (\<lambda>x. inv_id x = i) (invoices db))"
    by (rule filter_map_same) simp
  from assms have s: "single (map ?f (filter (\<lambda>x. inv_id x = i) (invoices db))) = Inr r"
    and d: "db' = insert_items i (itemsWithAmounts (compute items))
             (db\<lparr>invoices := map ?f (invoices db),
                 invoice_items := filter (\<lambda>it. invoice_id it \<noteq> i) (invoice_items db)\<rparr>)"
    by (auto simp: updateInvoice_def Let_def fm split: sum.splits)
  from s have "map ?f (filter (\<lambda>x. inv_id x = i) (invoices db)) = [r]"
    by (simp add: single_Inr)
  then obtain r0 where r0: "filter (\<lambda>x. inv_id x = i) (invoices db) = [r0]" "r = ?f r0"
    by (auto simp: map_eq_Cons_conv)
  from r0(1) have "r0 \<in> set (filter (\<lambda>x. inv_id x = i) (invoices db))"
    by simp
  then have "inv_id r0 = i"
    by simp
  with r0 d show thesis
    by (intro that [of r0]) simp_all
qed

lemma setInvoiceStatus_invoices:
  "invoices (snd (setInvoiceStatus i st db)) =
     map (\<lambda>r. if inv_id r = i then r\<lparr>status := st\<rparr> else r) (invoices db)"
  by (simp add: setInvoiceStatus_def Let_def)

lemma setInvoiceStatus_organizations [simp]:
  "organizations (snd (setInvoiceStatus i st db)) = organizations db"
  by (simp add: setInvoiceStatus_def Let_def)

lemma deleteInvoice_invoices:
  "invoices (snd (deleteInvoice i db)) = filter (\<lambda>r. inv_id r \<noteq> i) (invoices db)"
  by (simp add: deleteInvoice_def)

lemma deleteInvoice_organizations [simp]:
  "organizations (snd (deleteInvoice i db)) = organizations db"
  by (simp add: deleteInvoice_def)

lemma insert_invoice_organizations [simp]:
  "organizations (snd (insert_invoice n row db)) = organizations db"
  by (simp add: insert_invoice_def Let_def split: option.splits)



text \<open>The header table after \<open>createInvoice\<close>: as before, or one row longer.\<close>

lemma createInvoice_invoices:
  "invoices (snd (createInvoice ses invoice items db)) = invoices db \<or>
   (\<exists>r. fst (createInvoice ses invoice items db) = Inr r \<and>
      invoices (snd (createInvoice ses invoice items db)) = invoices db @ [r])"
proof (cases "createInvoice ses invoice items db")
  case (Pair v db')
  show ?thesis
  proof (cases v)
    case (Inl e)
    with Pair have "invoices db' = invoices db"
      by (auto simp: createInvoice_def insert_invoice_def Let_def
            split: option.splits prod.splits sum.splits if_splits
            dest: get_next_invoice_number_frameD)
    with Pair show ?thesis by simp
  next
    case (Inr r)
    with Pair show ?thesis
      by (auto elim!: createInvoice_Inr)
  qed
qed


lemma item_rows_amount [simp]: "map amount (item_rows iid k its) = map amount its"
  by (induction its arbitrary: k) simp_all

lemma item_rows_filter_same [simp]:
  "filter (\<lambda>it. invoice_id it = iid) (item_rows iid k its) = item_rows iid k its"
  by (induction its arbitrary: k) simp_all

lemma item_rows_invoice_id: "list_all (\<lambda>it. invoice_id it = iid) (item_rows iid k its)"
  by (induction its arbitrary: k) simp_all







lemma example_update:
  "\<exists>r db'. updateInvoice 7 example_update example_items (example_db_invoice (Some 1) ''INV-0001'' Sent) = (Inr r, db')"
  by (simp add: updateInvoice_def example_db_invoice_def example_invoice_def single_def Let_def)

subsection \<open>Totals and line amounts\<close>




lemma example_amounts:
  "map amount (itemsWithAmounts (compute example_items)) = [236, 50]"
  by (simp add: compute_def example_items_def)




subsection \<open>The totals invariant\<close>












subsection \<open>Status transitions\<close>

lemma setInvoiceStatus_present:
  assumes "filter (\<lambda>r. inv_id r = i) (invoices db) = [r0]"
  shows "fst (setInvoiceStatus i st db) = Inr (r0\<lparr>status := st\<rparr>)"
    and "filter (\<lambda>r. inv_id r = i) (invoices (snd (setInvoiceStatus i st db))) = [r0\<lparr>status := st\<rparr>]"
proof -
  let ?f = "\<lambda>r. if inv_id r = i then r\<lparr>status := st\<rparr> else r"
  from assms have "r0 \<in> set (filter (\<lambda>r. inv_id r = i) (invoices db))" by simp
  then have i: "inv_id r0 = i" by simp
  have "filter (\<lambda>r. inv_id r = i) (map ?f (invoices db)) = map ?f (filter (\<lambda>r. inv_id r = i) (invoices db))"
    by (rule filter_map_same) simp
  with assms i have e: "filter (\<lambda>r. inv_id r = i) (map ?f (invoices db)) = [r0\<lparr>status := st\<rparr>]"
    by simp
  then show "fst (setInvoiceStatus i st db) = Inr (r0\<lparr>status := st\<rparr>)"
    by (simp add: setInvoiceStatus_def Let_def single_def)
  from e show "filter (\<lambda>r. inv_id r = i) (invoices (snd (setInvoiceStatus i st db))) = [r0\<lparr>status := st\<rparr>]"
    by (simp add: setInvoiceStatus_invoices)
qed

text \<open>
  Claim C5 says that an invoice that is paid or cancelled rejects every further
  change of status. The hook has no such guard: a paid invoice is set back to draft
  and a cancelled one to sent, and both changes are stored.
\<close>

theorem C5_paid_is_not_terminal:
  "fst (setInvoiceStatus 7 Draft (example_db_invoice (Some 1) ''INV-0001'' Paid))
     = Inr (example_invoice 7 1 ''INV-0001'' Draft) \<and>
   invoices (snd (setInvoiceStatus 7 Draft (example_db_invoice (Some 1) ''INV-0001'' Paid)))
     = [example_invoice 7 1 ''INV-0001'' Draft] \<and>
   fst (setInvoiceStatus 7 Sent (example_db_invoice (Some 1) ''INV-0001'' Cancelled))
     = Inr (example_invoice 7 1 ''INV-0001'' Sent) \<and>
   invoices (snd (setInvoiceStatus 7 Sent (example_db_invoice (Some 1) ''INV-0001'' Cancelled)))
     = [example_invoice 7 1 ''INV-0001'' Sent]"
  by (simp add: setInvoiceStatus_def example_db_invoice_def example_invoice_def single_def Let_def)

text \<open>
  Claim C5, amended. For every existing invoice, whatever its status (paid and
  cancelled included), \<open>setInvoiceStatus\<close> to any status is accepted: it returns the
  invoice with the requested status and stores it.
\<close>

theorem C5_every_transition_is_accepted:
  "filter (\<lambda>r. inv_id r = i) (invoices db) = [r0] \<Longrightarrow>
   fst (setInvoiceStatus i st db) = Inr (r0\<lparr>status := st\<rparr>) \<and>
   filter (\<lambda>r. inv_id r = i) (invoices (snd (setInvoiceStatus i st db))) = [r0\<lparr>status := st\<rparr>]"
  using setInvoiceStatus_present by blast

theorem C5_every_transition_is_accepted_witness:
  "filter (\<lambda>r. inv_id r = 7) (invoices (example_db_invoice (Some 1) ''INV-0001'' Paid))
     = [example_invoice 7 1 ''INV-0001'' Paid] \<and>
   fst (setInvoiceStatus 7 Overdue (example_db_invoice (Some 1) ''INV-0001'' Paid))
     = Inr ((example_invoice 7 1 ''INV-0001'' Paid)\<lparr>status := Overdue\<rparr>) \<and>
   status ((example_invoice 7 1 ''INV-0001'' Paid)\<lparr>status := Overdue\<rparr>) = Overdue"
proof -
  have h: "filter (\<lambda>r. inv_id r = 7) (invoices (example_db_invoice (Some 1) ''INV-0001'' Paid))
     = [example_invoice 7 1 ''INV-0001'' Paid]"
    by (simp add: example_db_invoice_def example_invoice_def)
  from C5_every_transition_is_accepted [OF h, of Overdue] h show ?thesis
    by simp
qed

subsection \<open>The number of an invoice is assigned once\<close>

lemma map_map_if_same:
  "(\<And>x. h (f x) = h x) \<Longrightarrow> map h (map (\<lambda>x. if Q x then f x else x) xs) = map h xs"
  by (induction xs) simp_all

lemma updateInvoice_numbering: "numbering (snd (updateInvoice i u items db)) = numbering db"
  unfolding numbering_def updateInvoice_invoices by (rule map_map_if_same) simp

lemma setInvoiceStatus_numbering: "numbering (snd (setInvoiceStatus i st db)) = numbering db"
  unfolding numbering_def setInvoiceStatus_invoices by (rule map_map_if_same) simp

lemma createInvoice_next_uuid: "next_uuid db \<le> next_uuid (snd (createInvoice ses invoice items db))"
  by (auto simp: createInvoice_def insert_invoice_def Let_def
        split: option.splits prod.splits sum.splits if_splits
        dest!: get_next_invoice_number_frameD)

lemma updateInvoice_next_uuid: "next_uuid db \<le> next_uuid (snd (updateInvoice i u items db))"
  by (simp add: updateInvoice_def Let_def split: sum.splits)

lemma exec_next_uuid: "next_uuid db \<le> next_uuid (exec op db)"
  by (cases op)
     (simp_all add: createInvoice_next_uuid updateInvoice_next_uuid setInvoiceStatus_def
        deleteInvoice_def Let_def)

lemma createInvoice_numbering:
  assumes "t \<in> set (numbering (snd (createInvoice ses invoice items db)))" "fst t < next_uuid db"
  shows "t \<in> set (numbering db)"
proof -
  from createInvoice_invoices [of ses invoice items db] show ?thesis
  proof
    assume "invoices (snd (createInvoice ses invoice items db)) = invoices db"
    with assms(1) show ?thesis by (simp add: numbering_def)
  next
    assume "\<exists>r. fst (createInvoice ses invoice items db) = Inr r \<and>
      invoices (snd (createInvoice ses invoice items db)) = invoices db @ [r]"
    then obtain r where r: "fst (createInvoice ses invoice items db) = Inr r"
      "invoices (snd (createInvoice ses invoice items db)) = invoices db @ [r]"
      by blast
    from r(1) have "createInvoice ses invoice items db = (Inr r, snd (createInvoice ses invoice items db))"
      by (metis prod.collapse)
    then have "inv_id r = next_uuid db"
      by (elim createInvoice_Inr)
    with assms r(2) show ?thesis
      by (auto simp: numbering_def)
  qed
qed

lemma exec_numbering:
  assumes "t \<in> set (numbering (exec op db))" "fst t < next_uuid db"
  shows "t \<in> set (numbering db)"
proof (cases op)
  case (CreateInvoice ses invoice items)
  with assms show ?thesis by (simp add: createInvoice_numbering)
next
  case (UpdateInvoice i u items)
  with assms show ?thesis by (simp add: updateInvoice_numbering)
next
  case (SetInvoiceStatus i st)
  with assms show ?thesis by (simp add: setInvoiceStatus_numbering)
next
  case (DeleteInvoice i)
  with assms show ?thesis by (auto simp: numbering_def deleteInvoice_invoices)
next
  case (AllocateNext a)
  with assms show ?thesis by (simp add: numbering_def)
qed

lemma run_numbering:
  "t \<in> set (numbering (run ops db)) \<Longrightarrow> fst t < next_uuid db \<Longrightarrow> t \<in> set (numbering db)"
proof (induction ops arbitrary: db)
  case Nil
  then show ?case by simp
next
  case (Cons op ops)
  from Cons.prems(2) exec_next_uuid [of db op] have "fst t < next_uuid (exec op db)"
    by simp
  with Cons.IH [of "exec op db"] Cons.prems(1) have "t \<in> set (numbering (exec op db))"
    by simp
  then show ?case
    using Cons.prems(2) by (rule exec_numbering)
qed

lemma run_keeps_number:
  assumes "distinct (map inv_id (invoices db))" "keys_below_next db"
    "r1 \<in> set (invoices db)" "r2 \<in> set (invoices (run ops db))" "inv_id r2 = inv_id r1"
  shows "invoice_number r2 = invoice_number r1 \<and> organization_id r2 = organization_id r1"
proof -
  let ?t = "(inv_id r2, organization_id r2, invoice_number r2)"
  from assms(4) have "?t \<in> set (numbering (run ops db))"
    by (auto simp: numbering_def)
  moreover from assms(2,3,5) have "fst ?t < next_uuid db"
    by (simp add: keys_below_next_def list_all_iff)
  ultimately have "?t \<in> set (numbering db)"
    by (rule run_numbering)
  then obtain r0 where r0: "r0 \<in> set (invoices db)" "inv_id r0 = inv_id r2"
      "organization_id r0 = organization_id r2" "invoice_number r0 = invoice_number r2"
    by (auto simp: numbering_def)
  from assms(1) have "inj_on inv_id (set (invoices db))"
    by (simp add: distinct_map)
  with r0(1,2) assms(3,5) have "r0 = r1"
    by (auto dest: inj_onD)
  with r0 show ?thesis by simp
qed

text \<open>
  Claim C8. \<open>updateInvoice\<close> leaves the key, the organization and the number of every
  invoice as they were (so does \<open>setInvoiceStatus\<close>); the invoice it returns carries the
  stored number; and through any sequence of the operations an invoice that was in
  the database keeps its number and its organization for as long as it exists. The
  payload of the update has no key for the number, whatever the form collects.
\<close>

theorem C8_update_keeps_number_and_organization:
  "numbering (snd (updateInvoice i u items db)) = numbering db \<and>
   numbering (snd (setInvoiceStatus i st db)) = numbering db \<and>
   (updateInvoice i u items db = (Inr r, db') \<longrightarrow>
      (\<exists>r0. filter (\<lambda>x. inv_id x = i) (invoices db) = [r0] \<and>
         invoice_number r = invoice_number r0 \<and> organization_id r = organization_id r0)) \<and>
   (distinct (map inv_id (invoices db)) \<longrightarrow> keys_below_next db \<longrightarrow>
      r1 \<in> set (invoices db) \<longrightarrow> r2 \<in> set (invoices (run ops db)) \<longrightarrow> inv_id r2 = inv_id r1 \<longrightarrow>
      invoice_number r2 = invoice_number r1 \<and> organization_id r2 = organization_id r1)"
proof -
  have "\<exists>r0. filter (\<lambda>x. inv_id x = i) (invoices db) = [r0] \<and>
         invoice_number r = invoice_number r0 \<and> organization_id r = organization_id r0"
    if "updateInvoice i u items db = (Inr r, db')"
    using that by (elim updateInvoice_Inr) simp
  then show ?thesis
    using updateInvoice_numbering [of i u items db] setInvoiceStatus_numbering [of i st db]
      run_keeps_number [of db r1 r2 ops]
    by blast
qed


lemma example_run_update:
  "\<exists>r2. invoices (run [UpdateInvoice 7 example_update example_items, SetInvoiceStatus 7 Paid]
            (example_db_invoice (Some 1) ''INV-0001'' Sent)) = [r2] \<and>
      inv_id r2 = 7 \<and> status r2 = Paid \<and> customer_name r2 = Some ''Bob''"
  by (simp add: updateInvoice_def setInvoiceStatus_def example_db_invoice_def example_invoice_def
        example_update_def apply_invoice_update_def patched_def single_def Let_def)

theorem C8_update_keeps_number_and_organization_witness:
  "distinct (map inv_id (invoices (example_db_invoice (Some 1) ''INV-0001'' Sent))) \<and>
   keys_below_next (example_db_invoice (Some 1) ''INV-0001'' Sent) \<and>
   (\<exists>r db'. updateInvoice 7 example_update example_items
               (example_db_invoice (Some 1) ''INV-0001'' Sent) = (Inr r, db') \<and>
      invoice_number r = ''INV-0001'' \<and> organization_id r = 1) \<and>
   (\<exists>r2. r2 \<in> set (invoices (run [UpdateInvoice 7 example_update example_items, SetInvoiceStatus 7 Paid]
                   (example_db_invoice (Some 1) ''INV-0001'' Sent))) \<and>
      inv_id r2 = 7 \<and> status r2 = Paid \<and> customer_name r2 = Some ''Bob'' \<and>
      invoice_number r2 = ''INV-0001'' \<and> organization_id r2 = 1)"
proof -
  let ?db = "example_db_invoice (Some 1) ''INV-0001'' Sent"
  let ?r1 = "example_invoice 7 1 ''INV-0001'' Sent"
  let ?ops = "[UpdateInvoice 7 example_update example_items, SetInvoiceStatus 7 Paid]"
  have h1: "distinct (map inv_id (invoices ?db))"
    by (simp add: example_db_invoice_def)
  have h2: "keys_below_next ?db"
    by (simp add: keys_below_next_def example_db_invoice_def example_invoice_def)
  have h3: "?r1 \<in> set (invoices ?db)"
    by (simp add: example_db_invoice_def)
  have f: "filter (\<lambda>x. inv_id x = 7) (invoices ?db) = [?r1]"
    by (simp add: example_db_invoice_def example_invoice_def)
  have n: "invoice_number ?r1 = ''INV-0001''" "organization_id ?r1 = 1" "inv_id ?r1 = 7"
    by (simp_all add: example_invoice_def)
  obtain r db' where u: "updateInvoice 7 example_update example_items ?db = (Inr r, db')"
    using example_update by blast
  obtain r2 where r2: "invoices (run ?ops ?db) = [r2]" "inv_id r2 = 7" "status r2 = Paid"
      "customer_name r2 = Some ''Bob''"
    using example_run_update by blast
  note t = C8_update_keeps_number_and_organization [where db = ?db and i = 7
      and u = example_update and items = example_items and r = r and db' = db'
      and ?r1.0 = ?r1 and ?r2.0 = r2 and ops = ?ops]
  from t u f have a: "invoice_number r = ''INV-0001'' \<and> organization_id r = 1"
    using n by auto
  from r2 have "r2 \<in> set (invoices (run ?ops ?db))"
    by simp
  with t h1 h2 h3 r2(2) n have b: "invoice_number r2 = ''INV-0001'' \<and> organization_id r2 = 1"
    by auto
  from h1 h2 u a b r2 show ?thesis
    by (intro conjI exI [of _ r] exI [of _ db'] exI [of _ r2]) simp_all
qed

subsection \<open>Uniqueness of the number within an organization\<close>

lemma insert_invoice_duplicate:
  "list_ex (\<lambda>r. organization_id r = organization_id row \<and> invoice_number r = n) (invoices db) \<Longrightarrow>
   insert_invoice (Some n) row db = (Inl UniqueViolation, db)"
  by (simp add: insert_invoice_def)

lemma createInvoice_duplicate:
  assumes "current_organization_id ses = Some org" "user_id ses = Some uid"
    "get_next_invoice_number org db = (Inr (Some n), db1)"
    "list_ex (\<lambda>r. organization_id r = org \<and> invoice_number r = n) (invoices db)"
  shows "createInvoice ses invoice items db = (Inl UniqueViolation, db1)"
proof -
  from get_next_invoice_number_frameD [OF assms(3)] have "invoices db1 = invoices db"
    by simp
  with assms show ?thesis
    by (simp add: createInvoice_def insert_invoice_def Let_def)
qed

lemma exec_numbers_unique:
  assumes "numbers_unique db"
  shows "numbers_unique (exec op db)"
proof (cases op)
  case (CreateInvoice ses invoice items)
  from createInvoice_invoices [of ses invoice items db] show ?thesis
  proof
    assume "invoices (snd (createInvoice ses invoice items db)) = invoices db"
    with assms CreateInvoice show ?thesis by (simp add: numbers_unique_def)
  next
    assume "\<exists>r. fst (createInvoice ses invoice items db) = Inr r \<and>
      invoices (snd (createInvoice ses invoice items db)) = invoices db @ [r]"
    then obtain r where r: "fst (createInvoice ses invoice items db) = Inr r"
      "invoices (snd (createInvoice ses invoice items db)) = invoices db @ [r]"
      by blast
    from r(1) have "createInvoice ses invoice items db = (Inr r, snd (createInvoice ses invoice items db))"
      by (metis prod.collapse)
    then have "\<not> list_ex (\<lambda>x. organization_id x = organization_id r \<and> invoice_number x = invoice_number r)
        (invoices db)"
      by (elim createInvoice_Inr) simp
    then have "(organization_id r, invoice_number r) \<notin>
        set (map (\<lambda>r. (organization_id r, invoice_number r)) (invoices db))"
      by (auto simp: list_ex_iff)
    with assms r(2) CreateInvoice show ?thesis
      by (simp add: numbers_unique_def)
  qed
next
  case (UpdateInvoice i u items)
  have "map (\<lambda>r. (organization_id r, invoice_number r)) (invoices (snd (updateInvoice i u items db)))
      = map (\<lambda>r. (organization_id r, invoice_number r)) (invoices db)"
    unfolding updateInvoice_invoices by (rule map_map_if_same) simp
  with assms UpdateInvoice show ?thesis
    by (simp add: numbers_unique_def)
next
  case (SetInvoiceStatus i st)
  have "map (\<lambda>r. (organization_id r, invoice_number r)) (invoices (snd (setInvoiceStatus i st db)))
      = map (\<lambda>r. (organization_id r, invoice_number r)) (invoices db)"
    unfolding setInvoiceStatus_invoices by (rule map_map_if_same) simp
  with assms SetInvoiceStatus show ?thesis
    by (simp add: numbers_unique_def)
next
  case (DeleteInvoice i)
  with assms show ?thesis
    by (simp add: numbers_unique_def deleteInvoice_invoices distinct_map_filter)
next
  case (AllocateNext a)
  with assms show ?thesis by (simp add: numbers_unique_def)
qed

lemma run_numbers_unique: "numbers_unique db \<Longrightarrow> numbers_unique (run ops db)"
  by (induction ops arbitrary: db) (simp_all add: exec_numbers_unique)

text \<open>
  Claim C9. The table \<open>invoices\<close> refuses a second row with a number its organization
  already has: the insert fails with the unique violation (the specification's
  \<open>ConflictError\<close>) and stores nothing; \<open>createInvoice\<close> fails the same way when the
  allocator hands it such a number, the counter staying incremented; and the
  operations keep the numbers of an organization pairwise different. The constraint is
  the \<^verbatim>\<open>UNIQUE(organization_id, invoice_number)\<close> of the migration that creates the table;
  the schema summary in the documentation omits it.
\<close>

theorem C9_duplicate_number_is_refused:
  "(list_ex (\<lambda>r. organization_id r = organization_id row \<and> invoice_number r = n) (invoices db) \<longrightarrow>
      insert_invoice (Some n) row db = (Inl UniqueViolation, db)) \<and>
   (current_organization_id ses = Some org \<longrightarrow> user_id ses = Some uid \<longrightarrow>
      get_next_invoice_number org db = (Inr (Some n), db1) \<longrightarrow>
      list_ex (\<lambda>r. organization_id r = org \<and> invoice_number r = n) (invoices db) \<longrightarrow>
      createInvoice ses invoice items db = (Inl UniqueViolation, db1) \<and>
      invoices db1 = invoices db \<and> invoice_items db1 = invoice_items db) \<and>
   (numbers_unique db \<longrightarrow> numbers_unique (run ops db))"
  using insert_invoice_duplicate createInvoice_duplicate run_numbers_unique
    get_next_invoice_number_frameD
  by blast


lemma example_allocate_10000:
  "get_next_invoice_number 1 (example_db_invoice (Some 9999) ''INV-1000'' Draft)
     = (Inr (Some ''INV-1000''), example_db_invoice (Some 10000) ''INV-1000'' Draft)"
  by (simp add: get_next_invoice_number_def example_db_invoice_def example_org_def bumped_def
        int4_max_def format_10000)

theorem C9_duplicate_number_is_refused_witness:
  "numbers_unique (example_db_invoice (Some 9999) ''INV-1000'' Draft) \<and>
   insert_invoice (Some ''INV-1000'') (example_invoice 0 1 [] Draft)
       (example_db_invoice (Some 9999) ''INV-1000'' Draft)
     = (Inl UniqueViolation, example_db_invoice (Some 9999) ''INV-1000'' Draft) \<and>
   createInvoice (example_session 1) example_input example_items
       (example_db_invoice (Some 9999) ''INV-1000'' Draft)
     = (Inl UniqueViolation, example_db_invoice (Some 10000) ''INV-1000'' Draft) \<and>
   numbers_unique (run [CreateInvoice (example_session 1) example_input example_items]
       (example_db_invoice (Some 9999) ''INV-1000'' Draft))"
proof -
  let ?db = "example_db_invoice (Some 9999) ''INV-1000'' Draft"
  let ?row = "example_invoice 0 1 [] Draft"
  have u: "numbers_unique ?db"
    by (simp add: numbers_unique_def example_db_invoice_def)
  have d: "list_ex (\<lambda>r. organization_id r = organization_id ?row \<and> invoice_number r = ''INV-1000'')
      (invoices ?db)"
    by (simp add: example_db_invoice_def example_invoice_def)
  then have d': "list_ex (\<lambda>r. organization_id r = 1 \<and> invoice_number r = ''INV-1000'') (invoices ?db)"
    by (simp add: example_invoice_def)
  have s: "current_organization_id (example_session 1) = Some 1" "user_id (example_session 1) = Some 50"
    by (simp_all add: example_session_def)
  note t = C9_duplicate_number_is_refused [where row = ?row and n = "''INV-1000''" and db = ?db
      and ses = "example_session 1" and org = 1 and uid = 50
      and ?db1.0 = "example_db_invoice (Some 10000) ''INV-1000'' Draft"
      and invoice = example_input and items = example_items
      and ops = "[CreateInvoice (example_session 1) example_input example_items]"]
  from t d have "insert_invoice (Some ''INV-1000'') ?row ?db = (Inl UniqueViolation, ?db)"
    by blast
  moreover from t s example_allocate_10000 d'
  have "createInvoice (example_session 1) example_input example_items ?db
     = (Inl UniqueViolation, example_db_invoice (Some 10000) ''INV-1000'' Draft)"
    by blast
  moreover from t u
  have "numbers_unique (run [CreateInvoice (example_session 1) example_input example_items] ?db)"
    by blast
  ultimately show ?thesis
    using u by blast
qed

subsection \<open>The allocator on an unknown organization\<close>




subsection \<open>Sequential allocation\<close>

















subsection \<open>The counter never decreases\<close>

















end
